theory Spec2Isabelle
  imports Main "HOL-Library.AList" "HOL-Library.Sublist"
begin

section \<open>JavaScript values\<close>

text \<open>
  The exception filter handles values of unknown shape (\<^verbatim>\<open>unknown\<close>, \<^verbatim>\<open>string | object\<close>)
  and serialises an object as the response body. Values are modelled as a JSON-like tree with
  \<^verbatim>\<open>undefined\<close>; numbers are the integer-valued ones. An object is an association list
  of its own enumerable properties in insertion order.
\<close>

datatype jsval =
    JUndefined
  | JNull
  | JBool bool
  | JNum int
  | JStr string
  | JArr "jsval list"
  | JObj "(string \<times> jsval) list"

text \<open>Decimal rendering of a number, as \<^verbatim>\<open>String(n)\<close> gives for an integer.\<close>

definition digit_char :: "nat \<Rightarrow> char" where
  "digit_char d =
     (if d = 0 then CHR ''0'' else if d = 1 then CHR ''1'' else if d = 2 then CHR ''2''
      else if d = 3 then CHR ''3'' else if d = 4 then CHR ''4'' else if d = 5 then CHR ''5''
      else if d = 6 then CHR ''6'' else if d = 7 then CHR ''7'' else if d = 8 then CHR ''8''
      else CHR ''9'')"

fun show_nat :: "nat \<Rightarrow> string" where
  "show_nat n = (if n < 10 then [digit_char n] else show_nat (n div 10) @ [digit_char (n mod 10)])"

declare show_nat.simps [simp del]

definition show_int :: "int \<Rightarrow> string" where
  "show_int i = (if i < 0 then CHR ''-'' # show_nat (nat (- i)) else show_nat (nat i))"

text \<open>\<^verbatim>\<open>Array.prototype.join\<close> on strings.\<close>

fun join_with :: "string \<Rightarrow> string list \<Rightarrow> string" where
  "join_with sep [] = []"
| "join_with sep [x] = x"
| "join_with sep (x # y # ys) = x @ sep @ join_with sep (y # ys)"

text \<open>
  String conversion as a template literal \<^verbatim>\<open>`${v}`\<close> performs it: an array is its
  elements joined by a comma, with \<^verbatim>\<open>null\<close> and \<^verbatim>\<open>undefined\<close> elements
  rendered empty; a plain object is \<^verbatim>\<open>[object Object]\<close>.
\<close>

fun js_to_string :: "jsval \<Rightarrow> string" where
  "js_to_string JUndefined = ''undefined''"
| "js_to_string JNull = ''null''"
| "js_to_string (JBool b) = (if b then ''true'' else ''false'')"
| "js_to_string (JNum i) = show_int i"
| "js_to_string (JStr s) = s"
| "js_to_string (JArr xs) =
     join_with '','' (map (\<lambda>x. if x = JNull \<or> x = JUndefined then [] else js_to_string x) xs)"
| "js_to_string (JObj kvs) = ''[object Object]''"

text \<open>\<^verbatim>\<open>typeof v === 'object'\<close>: true of objects, arrays and \<^verbatim>\<open>null\<close>.\<close>

fun typeof_object :: "jsval \<Rightarrow> bool" where
  "typeof_object JNull = True"
| "typeof_object (JArr xs) = True"
| "typeof_object (JObj kvs) = True"
| "typeof_object v = False"

text \<open>Falsiness, as \<^verbatim>\<open>v || null\<close> tests it.\<close>

fun js_falsy :: "jsval \<Rightarrow> bool" where
  "js_falsy JUndefined = True"
| "js_falsy JNull = True"
| "js_falsy (JBool b) = (\<not> b)"
| "js_falsy (JNum i) = (i = 0)"
| "js_falsy (JStr s) = (s = [])"
| "js_falsy v = False"

text \<open>Property read \<^verbatim>\<open>o.k\<close> on an object: the value, or \<^verbatim>\<open>undefined\<close>.\<close>

definition get_prop :: "(string \<times> jsval) list \<Rightarrow> string \<Rightarrow> jsval" where
  "get_prop kvs k = (case map_of kvs k of None \<Rightarrow> JUndefined | Some v \<Rightarrow> v)"

text \<open>
  The own enumerable properties that an object spread \<^verbatim>\<open>{...v}\<close> copies: those of an
  object, the indices of an array, none of \<^verbatim>\<open>null\<close>. The filter spreads a value only
  after \<^verbatim>\<open>typeof v === 'object'\<close>, so no other case is reached.
\<close>

fun own_entries :: "jsval \<Rightarrow> (string \<times> jsval) list" where
  "own_entries (JObj kvs) = kvs"
| "own_entries (JArr xs) = zip (map show_nat [0 ..< length xs]) xs"
| "own_entries v = []"

text \<open>\<^verbatim>\<open>{...a, ...b}\<close>: the properties of a, overwritten or extended by those of b.\<close>

definition obj_spread :: "(string \<times> jsval) list \<Rightarrow> (string \<times> jsval) list \<Rightarrow> (string \<times> jsval) list" where
  "obj_spread a b = fold (\<lambda>(k, v) acc. AList.update k v acc) b a"

definition has_key :: "string \<Rightarrow> (string \<times> jsval) list \<Rightarrow> bool" where
  "has_key k kvs = (map_of kvs k \<noteq> None)"

section \<open>Failures reaching the exception filter\<close>

text \<open>
  \<^verbatim>\<open>catch(exception: unknown, ...)\<close> tells failures apart by \<^verbatim>\<open>instanceof\<close>: a
  ZodError carrying its issues, a PrismaClientKnownRequestError carrying a code and an optional
  \<^verbatim>\<open>meta\<close> record, an HttpException carrying a status and a response
  (\<^verbatim>\<open>string | object\<close>, which excludes \<^verbatim>\<open>null\<close>), and anything else, of which the
  model keeps the internal text.
\<close>

datatype path_seg = PKey string | PIdx nat

record zod_issue =
  issue_path :: "path_seg list"
  issue_message :: string

datatype http_class =
    BadRequestException
  | NotFoundException
  | InternalServerErrorException
  | PlainHttpException

datatype http_response =
    RString string
  | RObject "(string \<times> jsval) list"
  | RArray "jsval list"

datatype exception =
    ZodError "zod_issue list"
  | PrismaClientKnownRequestError string "(string \<times> jsval) list option"
  | HttpException http_class nat http_response
  | OtherFailure string

fun response_val :: "http_response \<Rightarrow> jsval" where
  "response_val (RString s) = JStr s"
| "response_val (RObject kvs) = JObj kvs"
| "response_val (RArray xs) = JArr xs"

text \<open>\<^verbatim>\<open>exception.meta?.k\<close>.\<close>

definition meta_prop :: "(string \<times> jsval) list option \<Rightarrow> string \<Rightarrow> jsval" where
  "meta_prop meta k = (case meta of None \<Rightarrow> JUndefined | Some kvs \<Rightarrow> get_prop kvs k)"

definition BAD_REQUEST :: nat where "BAD_REQUEST = 400"
definition NOT_FOUND :: nat where "NOT_FOUND = 404"
definition INTERNAL_SERVER_ERROR :: nat where "INTERNAL_SERVER_ERROR = 500"

text \<open>
  The exceptions the services construct from a string. The framework's constructor stores the
  body \<^verbatim>\<open>{ message, error, statusCode }\<close> as the response.
\<close>

definition newNotFoundException :: "string \<Rightarrow> exception" where
  "newNotFoundException msg =
     HttpException NotFoundException NOT_FOUND
       (RObject [(''message'', JStr msg), (''error'', JStr ''Not Found''), (''statusCode'', JNum 404)])"

definition newBadRequestException :: "string \<Rightarrow> exception" where
  "newBadRequestException msg =
     HttpException BadRequestException BAD_REQUEST
       (RObject [(''message'', JStr msg), (''error'', JStr ''Bad Request''), (''statusCode'', JNum 400)])"

definition newInternalServerErrorException :: "string \<Rightarrow> exception" where
  "newInternalServerErrorException msg =
     HttpException InternalServerErrorException INTERNAL_SERVER_ERROR
       (RObject [(''message'', JStr msg), (''error'', JStr ''Internal Server Error''),
                 (''statusCode'', JNum 500)])"

section \<open>ZodValidationPipe\<close>

fun seg_string :: "path_seg \<Rightarrow> string" where
  "seg_string (PKey s) = s"
| "seg_string (PIdx n) = show_nat n"

fun seg_val :: "path_seg \<Rightarrow> jsval" where
  "seg_val (PKey s) = JStr s"
| "seg_val (PIdx n) = JNum (int n)"

definition pipe_detail :: "zod_issue \<Rightarrow> jsval" where
  "pipe_detail e =
     JObj [(''field'', JStr (join_with ''.'' (map seg_string (issue_path e)))),
           (''message'', JStr (issue_message e))]"

text \<open>
  \<^verbatim>\<open>transform(value)\<close>: the schema's \<^verbatim>\<open>parse\<close> is a parameter; a ZodError becomes a
  BadRequestException whose response is \<^verbatim>\<open>{ message, details }\<close>, any other failure is
  thrown again.
\<close>

definition transform :: "('v \<Rightarrow> exception + 'v) \<Rightarrow> 'v \<Rightarrow> exception + 'v" where
  "transform parse v =
     (case parse v of
        Inr r \<Rightarrow> Inr r
      | Inl (ZodError errors) \<Rightarrow>
          Inl (HttpException BadRequestException BAD_REQUEST
                 (RObject [(''message'', JStr ''Validation failed''),
                           (''details'', JArr (map pipe_detail errors))]))
      | Inl error \<Rightarrow> Inl error)"

section \<open>AllExceptionsFilter\<close>

record response_metadata =
  status :: nat
  message :: jsval
  details :: jsval

definition filter_error_entry :: "zod_issue \<Rightarrow> jsval" where
  "filter_error_entry err =
     JObj [(''message'', JStr (issue_message err)),
           (''path'', JArr (map seg_val (issue_path err)))]"

definition handleZodError :: "zod_issue list \<Rightarrow> response_metadata" where
  "handleZodError errors =
     \<lparr> status = BAD_REQUEST,
       message = JObj [(''errors'', JArr (map filter_error_entry errors))],
       details = JNull \<rparr>"

definition handlePrismaError :: "string \<Rightarrow> (string \<times> jsval) list option \<Rightarrow> response_metadata" where
  "handlePrismaError code meta =
     (if code = ''P2002'' then
        \<lparr> status = BAD_REQUEST,
          message = JStr (''Unique constraint failed on the field: '' @ js_to_string (meta_prop meta ''target'')),
          details = JNull \<rparr>
      else if code = ''P2003'' then
        \<lparr> status = BAD_REQUEST,
          message = JStr (''Foreign key constraint failed on the field: '' @ js_to_string (meta_prop meta ''field_name'')),
          details = JNull \<rparr>
      else if code = ''P2025'' then
        \<lparr> status = NOT_FOUND,
          message = JStr ''Record not found for the specified operation.'',
          details = JNull \<rparr>
      else
        \<lparr> status = BAD_REQUEST, message = JStr ''Database error occurred'', details = JNull \<rparr>)"

definition generic_message :: string where
  "generic_message = ''Internal server error, contact support and provide the errorId''"

fun getResponseMetadata :: "exception \<Rightarrow> response_metadata" where
  "getResponseMetadata (ZodError errors) = handleZodError errors"
| "getResponseMetadata (PrismaClientKnownRequestError code meta) = handlePrismaError code meta"
| "getResponseMetadata (HttpException cls st (RObject kvs)) =
     (if cls = BadRequestException then
        \<lparr> status = st,
          message = get_prop kvs ''message'',
          details = (if js_falsy (get_prop kvs ''details'') then JNull else get_prop kvs ''details'') \<rparr>
      else \<lparr> status = st, message = JObj kvs, details = JNull \<rparr>)"
| "getResponseMetadata (HttpException cls st (RArray xs)) =
     (if cls = BadRequestException then
        \<lparr> status = st, message = JUndefined, details = JNull \<rparr>
      else \<lparr> status = st, message = JArr xs, details = JNull \<rparr>)"
| "getResponseMetadata (HttpException cls st (RString s)) =
     \<lparr> status = st, message = JStr s, details = JNull \<rparr>"
| "getResponseMetadata (OtherFailure txt) =
     \<lparr> status = INTERNAL_SERVER_ERROR, message = JStr generic_message, details = JNull \<rparr>"


section \<open>The world the filter and the service run in\<close>

text \<open>
  Everything outside the program text is explicit state: the wall clock, the ULID generator
  (a source of identifiers and the number drawn so far), the logger's sink, and the record
  store behind PrismaService with its two tables, the calls made to it, and the failures it
  will answer with. Field \<open>faults\<close> plays the part of a rejected store call
  (a lost connection, a violated constraint): when it names a failure for a call, the call
  throws it and the tables are left as they were.
\<close>

datatype log_level = Log | Warn | Error

datatype log_entry =
    LogLine log_level string "string option"
  | ErrorReport string exception

record audit =
  audit_id :: string
  audit_reportId :: string
  audit_audited :: bool
  audit_auditorId :: string
  audit_comments :: "string option"
  audit_createdAt :: string
  audit_updatedAt :: string

record recycling_report =
  report_id :: string
  report_audited :: bool
  report_submittedBy :: string
  report_walletAddress :: string
  report_evidenceUrl :: string

record create_audit_dto =
  dto_reportId :: string
  dto_audited :: bool
  dto_auditorId :: string
  dto_comments :: "string option"

datatype store_call =
    ReportFindUnique string
  | AuditCreate string string bool string "string option"
  | ReportUpdate string bool
  | AuditFindUnique string
  | AuditFindUniqueOrThrow string

record world =
  clock :: string
  ulid_src :: "nat \<Rightarrow> string"
  ulid_used :: nat
  logged :: "log_entry list"
  reports :: "string \<rightharpoonup> recycling_report"
  audits :: "audit list"
  calls :: "store_call list"
  faults :: "store_call \<Rightarrow> exception option"

definition ulid :: "world \<Rightarrow> string \<times> world" where
  "ulid w = (ulid_src w (ulid_used w), w\<lparr>ulid_used := Suc (ulid_used w)\<rparr>)"

definition logger :: "log_level \<Rightarrow> string \<Rightarrow> string option \<Rightarrow> world \<Rightarrow> world" where
  "logger lvl msg ctx w = w\<lparr>logged := logged w @ [LogLine lvl msg ctx]\<rparr>"

definition called :: "store_call \<Rightarrow> world \<Rightarrow> world" where
  "called c w = w\<lparr>calls := calls w @ [c]\<rparr>"

subsection \<open>The store's operations\<close>

text \<open>
  Each is one statement of the store: it records the call, then either throws the failure
  \<open>faults\<close> names for it or takes effect. \<^verbatim>\<open>create\<close> returns the stored row, whose
  absent comment is \<^verbatim>\<open>null\<close> and whose timestamps the store sets; \<^verbatim>\<open>update\<close> of a
  missing row and \<^verbatim>\<open>findUniqueOrThrow\<close> without a match throw the client's known
  request error P2025.
\<close>

definition recyclingReport_findUnique :: "string \<Rightarrow> world \<Rightarrow> (exception + recycling_report option) \<times> world" where
  "recyclingReport_findUnique rid w =
     (case faults w (ReportFindUnique rid) of
        Some e \<Rightarrow> (Inl e, called (ReportFindUnique rid) w)
      | None \<Rightarrow> (Inr (reports w rid), called (ReportFindUnique rid) w))"

definition audit_create :: "string \<Rightarrow> string \<Rightarrow> bool \<Rightarrow> string \<Rightarrow> string option \<Rightarrow> world \<Rightarrow> (exception + audit) \<times> world" where
  "audit_create aid rid aud auditor cmt w =
     (case faults w (AuditCreate aid rid aud auditor cmt) of
        Some e \<Rightarrow> (Inl e, called (AuditCreate aid rid aud auditor cmt) w)
      | None \<Rightarrow>
          (let row = \<lparr> audit_id = aid, audit_reportId = rid, audit_audited = aud,
                       audit_auditorId = auditor, audit_comments = cmt,
                       audit_createdAt = clock w, audit_updatedAt = clock w \<rparr>
           in (Inr row, (called (AuditCreate aid rid aud auditor cmt) w)\<lparr>audits := audits w @ [row]\<rparr>)))"

definition recyclingReport_update :: "string \<Rightarrow> bool \<Rightarrow> world \<Rightarrow> (exception + recycling_report) \<times> world" where
  "recyclingReport_update rid aud w =
     (case faults w (ReportUpdate rid aud) of
        Some e \<Rightarrow> (Inl e, called (ReportUpdate rid aud) w)
      | None \<Rightarrow>
          (case reports w rid of
             None \<Rightarrow> (Inl (PrismaClientKnownRequestError ''P2025'' None), called (ReportUpdate rid aud) w)
           | Some r \<Rightarrow>
               (Inr (r\<lparr>report_audited := aud\<rparr>),
                (called (ReportUpdate rid aud) w)\<lparr>reports := (reports w)(rid \<mapsto> r\<lparr>report_audited := aud\<rparr>)\<rparr>)))"

definition audit_findUnique :: "string \<Rightarrow> world \<Rightarrow> (exception + audit option) \<times> world" where
  "audit_findUnique i w =
     (case faults w (AuditFindUnique i) of
        Some e \<Rightarrow> (Inl e, called (AuditFindUnique i) w)
      | None \<Rightarrow> (Inr (find (\<lambda>a. audit_id a = i) (audits w)), called (AuditFindUnique i) w))"

definition audit_findUniqueOrThrow :: "string \<Rightarrow> world \<Rightarrow> (exception + audit) \<times> world" where
  "audit_findUniqueOrThrow i w =
     (case faults w (AuditFindUniqueOrThrow i) of
        Some e \<Rightarrow> (Inl e, called (AuditFindUniqueOrThrow i) w)
      | None \<Rightarrow>
          (case find (\<lambda>a. audit_id a = i) (audits w) of
             None \<Rightarrow> (Inl (PrismaClientKnownRequestError ''P2025'' None), called (AuditFindUniqueOrThrow i) w)
           | Some a \<Rightarrow> (Inr a, called (AuditFindUniqueOrThrow i) w)))"

subsection \<open>Building the response\<close>

type_synonym error_dto = "(string \<times> jsval) list"

definition generateErrorId :: "world \<Rightarrow> string \<times> world" where
  "generateErrorId w = ulid w"

definition buildBaseResponseBody :: "nat \<Rightarrow> string \<Rightarrow> jsval \<Rightarrow> jsval \<Rightarrow> world \<Rightarrow> error_dto" where
  "buildBaseResponseBody st url msg det w =
     [(''statusCode'', JNum (int st)),
      (''timestamp'', JStr (clock w)),
      (''path'', JStr url),
      (''message'', msg),
      (''details'', det)]"

definition build500Error :: "exception \<Rightarrow> error_dto \<Rightarrow> world \<Rightarrow> error_dto \<times> world" where
  "build500Error exception responseBody w =
     (case generateErrorId w of
        (errorId, w1) \<Rightarrow>
          (obj_spread responseBody [(''errorId'', JStr errorId)],
           w1\<lparr>logged := logged w1 @ [ErrorReport errorId exception]\<rparr>))"

definition buildResponseBody :: "nat \<Rightarrow> string \<Rightarrow> jsval \<Rightarrow> jsval \<Rightarrow> exception \<Rightarrow> world \<Rightarrow> error_dto \<times> world" where
  "buildResponseBody st url msg det exception w =
     (let responseBody = buildBaseResponseBody st url msg det w in
      if st \<noteq> INTERNAL_SERVER_ERROR then
        (if typeof_object msg then obj_spread responseBody (own_entries msg) else responseBody, w)
      else build500Error exception responseBody w)"

text \<open>
  \<^verbatim>\<open>catch(exception, host)\<close>: the request contributes its url; what is sent is the HTTP
  status given to \<^verbatim>\<open>response.status\<close> and the body given to \<^verbatim>\<open>json\<close>.
\<close>

record sent =
  sent_status :: nat
  sent_body :: error_dto

definition catch_filter :: "exception \<Rightarrow> string \<Rightarrow> world \<Rightarrow> sent \<times> world" where
  "catch_filter exception url w =
     (let m = getResponseMetadata exception in
      case buildResponseBody (status m) url (message m) (details m) exception w of
        (responseBody, w1) \<Rightarrow> (\<lparr> sent_status = status m, sent_body = responseBody \<rparr>, w1))"

section \<open>AuditService, first variant: one method per step\<close>

definition ensureReportExists :: "string \<Rightarrow> world \<Rightarrow> (exception + unit) \<times> world" where
  "ensureReportExists reportId w =
     (case recyclingReport_findUnique reportId w of
        (Inl e, w1) \<Rightarrow> (Inl e, w1)
      | (Inr None, w1) \<Rightarrow>
          (Inl (newNotFoundException
                  ''Audit creation failed because there is no valid report with this ID.''), w1)
      | (Inr (Some report), w1) \<Rightarrow> (Inr (), w1))"

definition createAuditRecord :: "string \<Rightarrow> bool \<Rightarrow> string \<Rightarrow> string option \<Rightarrow> world \<Rightarrow> (exception + audit) \<times> world" where
  "createAuditRecord reportId aud auditorId cmt w =
     (case ulid w of
        (auditId, w1) \<Rightarrow>
          (case audit_create auditId reportId aud auditorId cmt w1 of
             (Inr a, w2) \<Rightarrow> (Inr a, w2)
           | (Inl error, w2) \<Rightarrow>
               (Inl (newBadRequestException
                       ''Audit creation failed due to an issue while saving the audit record.''), w2)))"

definition markReportAsAudited :: "string \<Rightarrow> bool \<Rightarrow> world \<Rightarrow> (exception + unit) \<times> world" where
  "markReportAsAudited reportId aud w =
     (case recyclingReport_update reportId aud w of
        (Inr r, w1) \<Rightarrow> (Inr (), w1)
      | (Inl error, w1) \<Rightarrow>
          (Inl (newInternalServerErrorException
                  ''Audit was created, but marking the report as audited failed.''), w1))"

definition createAudit_A :: "create_audit_dto \<Rightarrow> world \<Rightarrow> (exception + audit) \<times> world" where
  "createAudit_A dto w =
     (let w0 = logger Log ''Starting audit creation'' (Some ''AuditService - createAudit'') w in
      case ensureReportExists (dto_reportId dto) w0 of
        (Inl e, w1) \<Rightarrow> (Inl e, w1)
      | (Inr u, w1) \<Rightarrow>
          (case createAuditRecord (dto_reportId dto) (dto_audited dto) (dto_auditorId dto) (dto_comments dto) w1 of
             (Inl e, w2) \<Rightarrow> (Inl e, w2)
           | (Inr a, w2) \<Rightarrow>
               (case markReportAsAudited (dto_reportId dto) (dto_audited dto) w2 of
                  (Inl e, w3) \<Rightarrow> (Inl e, w3)
                | (Inr u', w3) \<Rightarrow>
                    (Inr a, logger Log (''Audit created with ID: '' @ audit_id a)
                                  (Some ''AuditService - createAudit'') w3))))"

definition findAuditById_A :: "string \<Rightarrow> world \<Rightarrow> (exception + audit) \<times> world" where
  "findAuditById_A i w =
     (let w0 = logger Log (''Retrieving audit with ID: '' @ i) (Some ''FindAuditById'') w in
      case audit_findUniqueOrThrow i w0 of
        (Inl e, w1) \<Rightarrow> (Inl e, w1)
      | (Inr a, w1) \<Rightarrow> (Inr a, logger Log (''Retrieved audit with ID: '' @ i) (Some ''FindAuditById'') w1))"

section \<open>AuditService, second variant: one try block and its catch\<close>

definition createAudit_B_try :: "create_audit_dto \<Rightarrow> world \<Rightarrow> (exception + audit) \<times> world" where
  "createAudit_B_try dto w =
     (let w0 = logger Log ''Starting audit creation'' None w in
      case recyclingReport_findUnique (dto_reportId dto) w0 of
        (Inl e, w1) \<Rightarrow> (Inl e, w1)
      | (Inr None, w1) \<Rightarrow>
          (Inl (newNotFoundException (''RecyclingReport with ID '' @ dto_reportId dto @ '' not found.'')),
           logger Warn (''RecyclingReport with ID '' @ dto_reportId dto @ '' not found.'')
                  (Some ''CreateAudit'') w1)
      | (Inr (Some recyclingReport), w1) \<Rightarrow>
          (case ulid w1 of
             (auditId, w2) \<Rightarrow>
               (case audit_create auditId (dto_reportId dto) (dto_audited dto) (dto_auditorId dto)
                       (dto_comments dto) w2 of
                  (Inl e, w3) \<Rightarrow> (Inl e, w3)
                | (Inr a, w3) \<Rightarrow>
                    (case recyclingReport_update (dto_reportId dto) (dto_audited dto) w3 of
                       (Inl e, w4) \<Rightarrow> (Inl e, w4)
                     | (Inr r, w4) \<Rightarrow>
                         (Inr a, logger Log (''Audit created with ID: '' @ audit_id a) None w4)))))"

text \<open>
  The catch block. The stack trace given to the logger as a second argument is not part of
  the model's log line.
\<close>

fun createAudit_B_catch :: "exception \<Rightarrow> world \<Rightarrow> exception \<times> world" where
  "createAudit_B_catch (PrismaClientKnownRequestError code meta) w =
     (let w0 = logger Error ''Error occurred during audit creation'' (Some ''CreateAudit'') w in
      if code = ''P2003'' then
        (newBadRequestException
           (''Foreign key constraint failed on the field: '' @ js_to_string (meta_prop meta ''field_name'')),
         logger Warn (''Foreign key constraint failed: '' @ js_to_string (meta_prop meta ''field_name''))
                (Some ''CreateAudit'') w0)
      else if code = ''P2002'' then
        (newBadRequestException
           (''Unique constraint failed on the field: '' @ js_to_string (meta_prop meta ''target'')),
         logger Warn (''Unique constraint failed: '' @ js_to_string (meta_prop meta ''target''))
                (Some ''CreateAudit'') w0)
      else
        (newInternalServerErrorException ''An unexpected error occurred.'',
         logger Error ''Unexpected error occurred'' None w0))"
| "createAudit_B_catch (HttpException cls st r) w =
     (HttpException cls st r,
      logger Error ''Error occurred during audit creation'' (Some ''CreateAudit'') w)"
| "createAudit_B_catch error w =
     (newInternalServerErrorException ''An unexpected error occurred.'',
      logger Error ''Unexpected error occurred'' None
        (logger Error ''Error occurred during audit creation'' (Some ''CreateAudit'') w))"

definition createAudit_B :: "create_audit_dto \<Rightarrow> world \<Rightarrow> (exception + audit) \<times> world" where
  "createAudit_B dto w =
     (case createAudit_B_try dto w of
        (Inr a, w1) \<Rightarrow> (Inr a, w1)
      | (Inl error, w1) \<Rightarrow> (case createAudit_B_catch error w1 of (e, w2) \<Rightarrow> (Inl e, w2)))"

text \<open>
  \<^verbatim>\<open>findAuditById\<close> is declared to return \<^verbatim>\<open>Audit | null\<close>: the result type keeps
  the \<^verbatim>\<open>null\<close> as \<open>None\<close>.
\<close>

definition findAuditById_B :: "string \<Rightarrow> world \<Rightarrow> (exception + audit option) \<times> world" where
  "findAuditById_B i w =
     (let w0 = logger Log (''Retrieving audit with ID: '' @ i) (Some ''FindAuditById'') w in
      case audit_findUnique i w0 of
        (Inl e, w1) \<Rightarrow> (Inl e, w1)
      | (Inr None, w1) \<Rightarrow>
          (Inl (newNotFoundException (''Audit with ID '' @ i @ '' not found.'')),
           logger Warn (''Audit with ID '' @ i @ '' not found'') (Some ''FindAuditById'') w1)
      | (Inr (Some a), w1) \<Rightarrow>
          (Inr (Some a), logger Log (''Retrieved audit with ID: '' @ i) (Some ''FindAuditById'') w1))"


section \<open>Sample inputs\<close>

text \<open>
  One report \<open>r-1\<close>, not yet audited, no audit rows, and a request to audit it; the store's
  failures are the parameter.
\<close>

definition sample_report :: recycling_report where
  "sample_report =
     \<lparr> report_id = ''r-1'', report_audited = False, report_submittedBy = ''user789'',
       report_walletAddress = ''wallet123'', report_evidenceUrl = ''http://evidence.url'' \<rparr>"

definition sample_dto :: create_audit_dto where
  "sample_dto =
     \<lparr> dto_reportId = ''r-1'', dto_audited = True, dto_auditorId = ''a-1'',
       dto_comments = Some ''All good.'' \<rparr>"

definition sample_world :: "(store_call \<Rightarrow> exception option) \<Rightarrow> world" where
  "sample_world f =
     \<lparr> clock = ''2024-05-01T10:00:00.000Z'',
       ulid_src = (\<lambda>n. ''01HX'' @ show_nat n),
       ulid_used = 0,
       logged = [],
       reports = [''r-1'' \<mapsto> sample_report],
       audits = [],
       calls = [],
       faults = f \<rparr>"

definition no_fault :: "store_call \<Rightarrow> exception option" where
  "no_fault c = None"

fun create_fails :: "exception \<Rightarrow> store_call \<Rightarrow> exception option" where
  "create_fails e (AuditCreate aid rid aud auditor cmt) = Some e"
| "create_fails e c = None"

fun update_fails :: "exception \<Rightarrow> store_call \<Rightarrow> exception option" where
  "update_fails e (ReportUpdate rid aud) = Some e"
| "update_fails e c = None"

fun read_fails :: "exception \<Rightarrow> store_call \<Rightarrow> exception option" where
  "read_fails e (AuditFindUnique i) = Some e"
| "read_fails e (AuditFindUniqueOrThrow i) = Some e"
| "read_fails e c = None"

definition sample_row :: audit where
  "sample_row =
     \<lparr> audit_id = ''01HX0'', audit_reportId = ''r-1'', audit_audited = True,
       audit_auditorId = ''a-1'', audit_comments = Some ''All good.'',
       audit_createdAt = ''2024-05-01T10:00:00.000Z'',
       audit_updatedAt = ''2024-05-01T10:00:00.000Z'' \<rparr>"


text \<open>
  A schema that accepts any object and rejects every other value with one issue raised at
  the root of the value, whose path is therefore empty.
\<close>

definition root_issue :: zod_issue where
  "root_issue = \<lparr> issue_path = [], issue_message = ''Expected object, received string'' \<rparr>"

fun object_schema :: "jsval \<Rightarrow> exception + jsval" where
  "object_schema (JObj kvs) = Inr (JObj kvs)"
| "object_schema v = Inl (ZodError [root_issue])"

section \<open>Properties of object spread and of the response body\<close>

lemma map_of_obj_spread: "map_of (obj_spread a b) = map_of a ++ map_of (rev b)"
  unfolding obj_spread_def
proof (induction b arbitrary: a)
  case Nil
  show ?case by simp
next
  case (Cons x xs)
  obtain k v where x: "x = (k, v)" by (cases x)
  have "map_of (rev (x # xs)) = map_of [(k, v)] ++ map_of (rev xs)"
    by (simp add: x)
  then show ?case
    by (simp add: x Cons.IH AList.update_conv' map_add_def fun_eq_iff split: option.splits)
qed

lemma has_key_obj_spread: "has_key k (obj_spread a b) \<longleftrightarrow> has_key k a \<or> has_key k b"
proof -
  have "map_of (rev b) k \<noteq> None \<longleftrightarrow> map_of b k \<noteq> None"
    by (metis map_of_eq_None_iff set_rev)
  then show ?thesis
    by (auto simp: has_key_def map_of_obj_spread map_add_def split: option.splits)
qed

lemma own_entries_non_object: "\<not> typeof_object v \<Longrightarrow> own_entries v = []"
  by (cases v) simp_all

lemma base_has_no_errorId: "\<not> has_key ''errorId'' (buildBaseResponseBody st url msg det w)"
  by (simp add: has_key_def buildBaseResponseBody_def)

lemma sent_status_catch_filter:
  "sent_status (fst (catch_filter e url w)) = status (getResponseMetadata e)"
  by (simp add: catch_filter_def Let_def split: prod.splits)

lemma sent_body_catch_filter:
  "sent_body (fst (catch_filter e url w)) =
     fst (buildResponseBody (status (getResponseMetadata e)) url (message (getResponseMetadata e))
            (details (getResponseMetadata e)) e w)"
  by (simp add: catch_filter_def Let_def split: prod.splits)

lemma buildResponseBody_500:
  "fst (buildResponseBody 500 url msg det e w) =
     [(''statusCode'', JNum 500), (''timestamp'', JStr (clock w)), (''path'', JStr url),
      (''message'', msg), (''details'', det), (''errorId'', JStr (ulid_src w (ulid_used w)))]"
  by (simp add: buildResponseBody_def build500Error_def generateErrorId_def ulid_def
      INTERNAL_SERVER_ERROR_def buildBaseResponseBody_def obj_spread_def)

lemma buildResponseBody_other:
  "st \<noteq> 500 \<Longrightarrow> fst (buildResponseBody st url msg det e w) =
     obj_spread (buildBaseResponseBody st url msg det w) (own_entries msg)"
  by (cases "typeof_object msg")
    (simp_all add: buildResponseBody_def Let_def INTERNAL_SERVER_ERROR_def own_entries_non_object
      obj_spread_def)

section \<open>The correlation id\<close>

text \<open>
  Claim C2, as the code has it. The filter attaches \<open>errorId\<close> exactly when the status is
  500 itself: \<^verbatim>\<open>buildResponseBody\<close> compares the status with
  \<^verbatim>\<open>HttpStatus.INTERNAL_SERVER_ERROR\<close>, not with the range 500 to 599. For every other
  status the body has an \<open>errorId\<close> property only when the failure's own message is an
  object that carries one, since such a message is spread into the body. So for every failure
  whose message is a string, \<open>errorId\<close> is present if and only if the status is 500.
\<close>

theorem errorId_iff_status_500:
  "has_key ''errorId'' (sent_body (fst (catch_filter e url w))) \<longleftrightarrow>
     (sent_status (fst (catch_filter e url w)) = 500
      \<or> has_key ''errorId'' (own_entries (message (getResponseMetadata e))))"
proof (cases "status (getResponseMetadata e) = 500")
  case True
  then show ?thesis
    by (simp add: sent_status_catch_filter sent_body_catch_filter buildResponseBody_500 has_key_def)
next
  case False
  then show ?thesis
    by (simp add: sent_status_catch_filter sent_body_catch_filter buildResponseBody_other
        has_key_obj_spread base_has_no_errorId)
qed

text \<open>
  Claim C2 as stated fails: a failure thrown with status 503 is answered with status 503, a
  status of the 500 class, and a body without \<open>errorId\<close>.
\<close>

theorem errorId_absent_on_503:
  "sent_status (fst (catch_filter
       (HttpException PlainHttpException 503 (RString ''Service Unavailable''))
       ''/v1/audits'' (sample_world no_fault))) = 503
   \<and> \<not> has_key ''errorId'' (sent_body (fst (catch_filter
       (HttpException PlainHttpException 503 (RString ''Service Unavailable''))
       ''/v1/audits'' (sample_world no_fault))))"
  by (simp add: sent_status_catch_filter sent_body_catch_filter
      buildResponseBody_other obj_spread_def base_has_no_errorId)

section \<open>Messages of status 500\<close>

text \<open>
  Claim C3, as the code has it. A failure that is no ZodError, no known request error of the
  store and no HttpException is answered with status 500, the one fixed message and a
  correlation id, whatever its own text \<open>txt\<close>. An HttpException thrown with status 500
  is not re-routed: the body is the base body with its own status and message and a
  correlation id, nothing of the message is merged into the body's top level, and for every
  class but BadRequestException the message is the exception's response, unchanged.
\<close>

theorem unexpected_failure_generic_message:
  "sent_status (fst (catch_filter (OtherFailure txt) url w)) = 500
   \<and> sent_body (fst (catch_filter (OtherFailure txt) url w)) =
       [(''statusCode'', JNum 500), (''timestamp'', JStr (clock w)), (''path'', JStr url),
        (''message'', JStr ''Internal server error, contact support and provide the errorId''),
        (''details'', JNull), (''errorId'', JStr (ulid_src w (ulid_used w)))]
   \<and> sent_status (fst (catch_filter (HttpException cls 500 r) url w)) = 500
   \<and> sent_body (fst (catch_filter (HttpException cls 500 r) url w)) =
       [(''statusCode'', JNum 500), (''timestamp'', JStr (clock w)), (''path'', JStr url),
        (''message'', message (getResponseMetadata (HttpException cls 500 r))),
        (''details'', details (getResponseMetadata (HttpException cls 500 r))),
        (''errorId'', JStr (ulid_src w (ulid_used w)))]
   \<and> (cls \<noteq> BadRequestException \<longrightarrow>
        message (getResponseMetadata (HttpException cls 500 r)) = response_val r)"
proof -
  have st: "status (getResponseMetadata (HttpException cls 500 r)) = 500"
    by (cases r) simp_all
  have "cls \<noteq> BadRequestException \<Longrightarrow>
        message (getResponseMetadata (HttpException cls 500 r)) = response_val r"
    by (cases r) simp_all
  then show ?thesis
    by (simp add: sent_status_catch_filter sent_body_catch_filter st buildResponseBody_500
        INTERNAL_SERVER_ERROR_def generic_message_def)
qed

theorem unexpected_failure_generic_message_witness:
  "InternalServerErrorException \<noteq> BadRequestException
   \<and> get_prop (sent_body (fst (catch_filter (OtherFailure ''connect ECONNREFUSED 10.0.0.5:5432'')
        ''/v1/audits'' (sample_world no_fault)))) ''message''
       = JStr ''Internal server error, contact support and provide the errorId''
   \<and> message (getResponseMetadata (HttpException InternalServerErrorException 500 (RString ''boom'')))
       = JStr ''boom''"
  using unexpected_failure_generic_message
    [of "''connect ECONNREFUSED 10.0.0.5:5432''" "''/v1/audits''" "sample_world no_fault"
        InternalServerErrorException "RString ''boom''"]
  by (simp add: get_prop_def)

text \<open>
  Claim C3 as stated fails: the InternalServerErrorException that the audit service throws
  with its own text is answered with status 500 and a message that carries that text, not
  the fixed one.
\<close>

theorem explicit_500_message_passes_through:
  "sent_status (fst (catch_filter
      (newInternalServerErrorException ''Audit was created, but marking the report as audited failed.'')
      ''/v1/audits'' (sample_world no_fault))) = 500
   \<and> get_prop (sent_body (fst (catch_filter
      (newInternalServerErrorException ''Audit was created, but marking the report as audited failed.'')
      ''/v1/audits'' (sample_world no_fault)))) ''message''
     = JObj [(''message'', JStr ''Audit was created, but marking the report as audited failed.''),
             (''error'', JStr ''Internal Server Error''), (''statusCode'', JNum 500)]
   \<and> get_prop (sent_body (fst (catch_filter
      (newInternalServerErrorException ''Audit was created, but marking the report as audited failed.'')
      ''/v1/audits'' (sample_world no_fault)))) ''message''
     \<noteq> JStr generic_message"
  by (simp add: sent_status_catch_filter sent_body_catch_filter newInternalServerErrorException_def
      INTERNAL_SERVER_ERROR_def buildResponseBody_500 get_prop_def)

section \<open>Uniqueness violations\<close>

lemma sublist_join_with: "f \<in> set fs \<Longrightarrow> sublist f (join_with sep fs)"
proof (induction sep fs rule: join_with.induct)
  case (1 sep)
  then show ?case by simp
next
  case (2 sep x)
  then show ?case by simp
next
  case (3 sep x y ys)
  show ?case
  proof (cases "f = x")
    case True
    then show ?thesis by simp
  next
    case False
    with 3 have "sublist f (join_with sep (y # ys))" by simp
    then obtain ps ss where "join_with sep (y # ys) = ps @ f @ ss"
      by (auto simp: sublist_def)
    then have "join_with sep (x # y # ys) = (x @ sep @ ps) @ f @ ss" by simp
    then show ?thesis unfolding sublist_def by blast
  qed
qed

lemma js_to_string_strings: "js_to_string (JArr (map JStr fs)) = join_with '','' fs"
proof -
  have "map (\<lambda>x. if x = JNull \<or> x = JUndefined then [] else js_to_string x) (map JStr fs) = fs"
    by (induction fs) simp_all
  then show ?thesis by simp
qed

text \<open>
  Claim C4, as the code has it. A known request error of the store with code P2002 whose
  \<^verbatim>\<open>meta.target\<close> lists the fields \<open>fs\<close> is classified with status 400 (not 409)
  and the message \<^verbatim>\<open>Unique constraint failed on the field: \<close> followed by the fields
  joined by commas, so every field name occurs in the message; the catch block of the second
  service variant turns the same error into a BadRequestException with the same message,
  which the filter answers with status 400 too.
\<close>

theorem unique_violation_status_400:
  assumes "meta_prop meta ''target'' = JArr (map JStr fs)"
  shows "getResponseMetadata (PrismaClientKnownRequestError ''P2002'' meta) =
           \<lparr> status = 400,
             message = JStr (''Unique constraint failed on the field: '' @ join_with '','' fs),
             details = JNull \<rparr>
         \<and> (\<forall>f \<in> set fs.
               sublist f (''Unique constraint failed on the field: '' @ join_with '','' fs))
         \<and> fst (createAudit_B_catch (PrismaClientKnownRequestError ''P2002'' meta) w) =
             newBadRequestException (''Unique constraint failed on the field: '' @ join_with '','' fs)
         \<and> status (getResponseMetadata
               (newBadRequestException (''Unique constraint failed on the field: '' @ join_with '','' fs)))
             = 400"
proof -
  have "\<forall>f \<in> set fs.
          sublist f (''Unique constraint failed on the field: '' @ join_with '','' fs)"
    using sublist_join_with sublist_append by blast
  moreover have "js_to_string (meta_prop meta ''target'') = join_with '','' fs"
    by (simp only: assms js_to_string_strings)
  ultimately show ?thesis
    by (simp add: handlePrismaError_def BAD_REQUEST_def Let_def newBadRequestException_def)
qed

theorem unique_violation_status_400_witness:
  "getResponseMetadata (PrismaClientKnownRequestError ''P2002''
       (Some [(''target'', JArr [JStr ''auditorId'', JStr ''reportId''])])) =
     \<lparr> status = 400,
       message = JStr ''Unique constraint failed on the field: auditorId,reportId'',
       details = JNull \<rparr>
   \<and> sublist ''reportId'' ''Unique constraint failed on the field: auditorId,reportId''"
proof -
  have h: "meta_prop (Some [(''target'', JArr [JStr ''auditorId'', JStr ''reportId''])]) ''target''
             = JArr (map JStr [''auditorId'', ''reportId''])"
    by (simp add: meta_prop_def get_prop_def)
  show ?thesis
    using unique_violation_status_400 [OF h, of "sample_world no_fault"] by simp
qed

text \<open>
  Claim C4 as stated fails: the violation of the unique pair (auditorId, reportId) is
  classified with status 400, which is not 409.
\<close>

theorem unique_violation_is_not_409:
  "status (getResponseMetadata (PrismaClientKnownRequestError ''P2002''
       (Some [(''target'', JArr [JStr ''auditorId'', JStr ''reportId''])]))) = 400
   \<and> status (getResponseMetadata (PrismaClientKnownRequestError ''P2002''
       (Some [(''target'', JArr [JStr ''auditorId'', JStr ''reportId''])]))) \<noteq> 409"
  by (simp add: handlePrismaError_def BAD_REQUEST_def)


section \<open>Validation failures\<close>

lemma show_nat_nonempty: "show_nat n \<noteq> []"
  by (subst show_nat.simps) simp

lemma join_with_empty_iff:
  "sep \<noteq> [] \<Longrightarrow> join_with sep xs = [] \<longleftrightarrow> xs = [] \<or> xs = [[]]"
  by (induction sep xs rule: join_with.induct) auto

lemma seg_strings_single_empty: "map seg_string p = [[]] \<longleftrightarrow> p = [PKey []]"
proof
  assume h: "map seg_string p = [[]]"
  then obtain s where p: "p = [s]" by (cases p) auto
  with h have "seg_string s = []" by simp
  then have "s = PKey []" by (cases s) (simp_all add: show_nat_nonempty)
  with p show "p = [PKey []]" by simp
qed simp

lemma field_empty_iff:
  "join_with ''.'' (map seg_string p) = [] \<longleftrightarrow> p = [] \<or> p = [PKey []]"
  by (simp add: join_with_empty_iff seg_strings_single_empty)


text \<open>
  Claim C8, as the code has it. A validation failure with N issues gives N entries, one per
  issue and in the issues' order, each with the issue's message: the pipe's
  BadRequestException is answered with status 400 and \<open>details\<close> holding the entries
  \<^verbatim>\<open>{ field, message }\<close>, the field being the path segments joined by a dot; a ZodError
  reaching the filter is answered with status 400 and \<open>message.errors\<close> holding the
  entries \<^verbatim>\<open>{ message, path }\<close>, the path being the array of segments, not joined.
  Neither drops an issue whose path is empty: the field is empty exactly when the path is
  empty or is the single empty key, and the path array is empty exactly when the issue's
  path is.
\<close>

theorem validation_details_one_per_issue:
  assumes "parse v = Inl (ZodError errors)"
  shows "(\<exists>exc. transform parse v = Inl exc
            \<and> sent_status (fst (catch_filter exc url w)) = 400
            \<and> get_prop (sent_body (fst (catch_filter exc url w))) ''details''
                = JArr (map pipe_detail errors))
         \<and> sent_status (fst (catch_filter (ZodError errors) url w)) = 400
         \<and> get_prop (sent_body (fst (catch_filter (ZodError errors) url w))) ''message''
             = JObj [(''errors'', JArr (map filter_error_entry errors))]
         \<and> length (map pipe_detail errors) = length errors
         \<and> length (map filter_error_entry errors) = length errors
         \<and> (\<forall>i < length errors.
               map pipe_detail errors ! i =
                 JObj [(''field'', JStr (join_with ''.'' (map seg_string (issue_path (errors ! i))))),
                       (''message'', JStr (issue_message (errors ! i)))]
             \<and> map filter_error_entry errors ! i =
                 JObj [(''message'', JStr (issue_message (errors ! i))),
                       (''path'', JArr (map seg_val (issue_path (errors ! i))))]
             \<and> (join_with ''.'' (map seg_string (issue_path (errors ! i))) = []
                  \<longleftrightarrow> issue_path (errors ! i) = [] \<or> issue_path (errors ! i) = [PKey []])
             \<and> (map seg_val (issue_path (errors ! i)) = [] \<longleftrightarrow> issue_path (errors ! i) = []))"
proof -
  let ?exc = "HttpException BadRequestException BAD_REQUEST
                (RObject [(''message'', JStr ''Validation failed''),
                          (''details'', JArr (map pipe_detail errors))])"
  have t: "transform parse v = Inl ?exc"
    using assms by (simp add: transform_def)
  have pipe: "sent_status (fst (catch_filter ?exc url w)) = 400
      \<and> get_prop (sent_body (fst (catch_filter ?exc url w))) ''details'' = JArr (map pipe_detail errors)"
    by (simp add: sent_status_catch_filter sent_body_catch_filter BAD_REQUEST_def
        buildResponseBody_other obj_spread_def buildBaseResponseBody_def get_prop_def)
  have filt: "sent_status (fst (catch_filter (ZodError errors) url w)) = 400
      \<and> get_prop (sent_body (fst (catch_filter (ZodError errors) url w))) ''message''
          = JObj [(''errors'', JArr (map filter_error_entry errors))]"
    by (simp add: sent_status_catch_filter sent_body_catch_filter handleZodError_def BAD_REQUEST_def
        buildResponseBody_other obj_spread_def buildBaseResponseBody_def get_prop_def)
  have entries: "\<forall>i < length errors.
               map pipe_detail errors ! i =
                 JObj [(''field'', JStr (join_with ''.'' (map seg_string (issue_path (errors ! i))))),
                       (''message'', JStr (issue_message (errors ! i)))]
             \<and> map filter_error_entry errors ! i =
                 JObj [(''message'', JStr (issue_message (errors ! i))),
                       (''path'', JArr (map seg_val (issue_path (errors ! i))))]
             \<and> (join_with ''.'' (map seg_string (issue_path (errors ! i))) = []
                  \<longleftrightarrow> issue_path (errors ! i) = [] \<or> issue_path (errors ! i) = [PKey []])
             \<and> (map seg_val (issue_path (errors ! i)) = [] \<longleftrightarrow> issue_path (errors ! i) = [])"
    by (simp add: pipe_detail_def filter_error_entry_def field_empty_iff)
  from t pipe filt entries show ?thesis by simp
qed

theorem validation_details_one_per_issue_witness:
  "get_prop (sent_body (fst (catch_filter (ZodError [\<lparr> issue_path = [PKey ''reportId''], issue_message = ''Required'' \<rparr>]) ''/v1/audits'' (sample_world no_fault)))) ''message''
     = JObj [(''errors'', JArr [JObj [(''message'', JStr ''Required''), (''path'', JArr [JStr ''reportId''])]])]
   \<and> pipe_detail \<lparr> issue_path = [PKey ''reportId''], issue_message = ''Required'' \<rparr>
       = JObj [(''field'', JStr ''reportId''), (''message'', JStr ''Required'')]"
  using validation_details_one_per_issue
    [of "\<lambda>u::unit. Inl (ZodError [\<lparr> issue_path = [PKey ''reportId''], issue_message = ''Required'' \<rparr>])"
        "()" "[\<lparr> issue_path = [PKey ''reportId''], issue_message = ''Required'' \<rparr>]"
        "''/v1/audits''" "sample_world no_fault"]
  by (simp add: filter_error_entry_def pipe_detail_def)

text \<open>
  Claim C8 as stated fails: a string where an object is expected raises one issue at the
  root; its entry has the empty path in the filter's body and the empty field in the pipe's
  exception.
\<close>

theorem root_issue_has_empty_path:
  "get_prop (sent_body (fst (catch_filter (ZodError [root_issue]) ''/v1/audits/audit123''
       (sample_world no_fault)))) ''message''
     = JObj [(''errors'', JArr [JObj [(''message'', JStr ''Expected object, received string''),
                                     (''path'', JArr [])]])]
   \<and> transform object_schema (JStr ''audit123'')
     = Inl (HttpException BadRequestException 400
         (RObject [(''message'', JStr ''Validation failed''),
                   (''details'', JArr [JObj [(''field'', JStr []),
                                            (''message'', JStr ''Expected object, received string'')]])]))"
  by (simp add: sent_body_catch_filter handleZodError_def BAD_REQUEST_def buildResponseBody_other
      obj_spread_def buildBaseResponseBody_def get_prop_def filter_error_entry_def root_issue_def
      transform_def pipe_detail_def)

section \<open>Classification does not depend on the world\<close>

lemma get_prop_base_independent:
  "k \<noteq> ''timestamp'' \<Longrightarrow>
   get_prop (obj_spread (buildBaseResponseBody st url msg det w1) b) k =
   get_prop (obj_spread (buildBaseResponseBody st url msg det w2) b) k"
  by (simp add: get_prop_def map_of_obj_spread map_add_def buildBaseResponseBody_def
      split: option.splits)

text \<open>
  Claim C9. What the filter sends for a failure is the same in any two worlds, whatever the
  clock shows, whichever identifiers have been drawn and whatever has been logged: the HTTP
  status and the body's \<open>statusCode\<close>, \<open>message\<close> and \<open>details\<close> depend on the
  failure alone. In particular handling the same failure a second time, in the world the
  first handling left behind, gives the same status, message and details.
\<close>

theorem classification_deterministic:
  "sent_status (fst (catch_filter e url w1)) = sent_status (fst (catch_filter e url w2))
   \<and> get_prop (sent_body (fst (catch_filter e url w1))) ''message''
     = get_prop (sent_body (fst (catch_filter e url w2))) ''message''
   \<and> get_prop (sent_body (fst (catch_filter e url w1))) ''details''
     = get_prop (sent_body (fst (catch_filter e url w2))) ''details''
   \<and> get_prop (sent_body (fst (catch_filter e url w1))) ''statusCode''
     = get_prop (sent_body (fst (catch_filter e url w2))) ''statusCode''
   \<and> sent_status (fst (catch_filter e url (snd (catch_filter e url w1))))
     = sent_status (fst (catch_filter e url w1))
   \<and> get_prop (sent_body (fst (catch_filter e url (snd (catch_filter e url w1))))) ''message''
     = get_prop (sent_body (fst (catch_filter e url w1))) ''message''
   \<and> get_prop (sent_body (fst (catch_filter e url (snd (catch_filter e url w1))))) ''details''
     = get_prop (sent_body (fst (catch_filter e url w1))) ''details''"
proof (cases "status (getResponseMetadata e) = 500")
  case True
  then show ?thesis
    by (simp add: sent_status_catch_filter sent_body_catch_filter buildResponseBody_500 get_prop_def)
next
  case False
  have "\<And>k wa wb. k \<noteq> ''timestamp'' \<Longrightarrow>
          get_prop (sent_body (fst (catch_filter e url wa))) k
          = get_prop (sent_body (fst (catch_filter e url wb))) k"
    using False
    by (simp add: sent_body_catch_filter buildResponseBody_other get_prop_base_independent)
  then show ?thesis
    by (simp add: sent_status_catch_filter)
qed



section \<open>The audit-creation workflow\<close>

lemmas store_defs =
  recyclingReport_findUnique_def audit_create_def recyclingReport_update_def
  audit_findUnique_def audit_findUniqueOrThrow_def called_def logger_def ulid_def

lemmas service_A_defs =
  createAudit_A_def ensureReportExists_def createAuditRecord_def markReportAsAudited_def

lemmas service_B_defs = createAudit_B_def createAudit_B_try_def

lemma status_newNotFoundException: "status (getResponseMetadata (newNotFoundException m)) = 404"
  by (simp add: newNotFoundException_def NOT_FOUND_def)

lemma status_newBadRequestException: "status (getResponseMetadata (newBadRequestException m)) = 400"
  by (simp add: newBadRequestException_def BAD_REQUEST_def)

lemma status_newInternalServerErrorException:
  "status (getResponseMetadata (newInternalServerErrorException m)) = 500"
  by (simp add: newInternalServerErrorException_def INTERNAL_SERVER_ERROR_def)

lemma show_nat_0: "show_nat 0 = ''0''"
  by (simp add: show_nat.simps digit_char_def)

lemma createAudit_B_catch_logs_only:
  "reports (snd (createAudit_B_catch e w)) = reports w
   \<and> audits (snd (createAudit_B_catch e w)) = audits w
   \<and> calls (snd (createAudit_B_catch e w)) = calls w"
  by (cases e) (simp_all add: logger_def Let_def)

lemma createAudit_B_after_try_failure:
  assumes "fst (createAudit_B_try dto w) = Inl e"
  shows "createAudit_B dto w =
           (Inl (fst (createAudit_B_catch e (snd (createAudit_B_try dto w)))),
            snd (createAudit_B_catch e (snd (createAudit_B_try dto w))))"
  using assms by (cases "createAudit_B_try dto w") (simp add: createAudit_B_def split: prod.splits)

subsection \<open>Step 1: the report is missing\<close>

text \<open>
  Claim C6. When the lookup of the request's report answers that there is none, both variants
  of the workflow fail with a NotFoundException, which the filter answers with status 404;
  the store's tables are as before, and the lookup is the only call the store has received:
  no audit row was created and no report was updated.
\<close>

theorem missing_report_halts_at_step_1:
  assumes "fst (recyclingReport_findUnique (dto_reportId dto) w) = Inr None"
  shows "fst (createAudit_A dto w) =
           Inl (newNotFoundException
                  ''Audit creation failed because there is no valid report with this ID.'')
         \<and> fst (createAudit_B dto w) =
           Inl (newNotFoundException (''RecyclingReport with ID '' @ dto_reportId dto @ '' not found.''))
         \<and> status (getResponseMetadata (newNotFoundException
                  ''Audit creation failed because there is no valid report with this ID.'')) = 404
         \<and> status (getResponseMetadata (newNotFoundException
                  (''RecyclingReport with ID '' @ dto_reportId dto @ '' not found.''))) = 404
         \<and> reports (snd (createAudit_A dto w)) = reports w
         \<and> audits (snd (createAudit_A dto w)) = audits w
         \<and> calls (snd (createAudit_A dto w)) = calls w @ [ReportFindUnique (dto_reportId dto)]
         \<and> reports (snd (createAudit_B dto w)) = reports w
         \<and> audits (snd (createAudit_B dto w)) = audits w
         \<and> calls (snd (createAudit_B dto w)) = calls w @ [ReportFindUnique (dto_reportId dto)]"
proof -
  from assms have nf: "faults w (ReportFindUnique (dto_reportId dto)) = None"
    and nr: "reports w (dto_reportId dto) = None"
    by (auto simp: store_defs split: option.splits)
  have a: "createAudit_A dto w =
        (Inl (newNotFoundException
                ''Audit creation failed because there is no valid report with this ID.''),
         called (ReportFindUnique (dto_reportId dto))
           (logger Log ''Starting audit creation'' (Some ''AuditService - createAudit'') w))"
    using nf nr by (simp add: service_A_defs store_defs)
  have b: "createAudit_B dto w =
        (Inl (newNotFoundException (''RecyclingReport with ID '' @ dto_reportId dto @ '' not found.'')),
         logger Error ''Error occurred during audit creation'' (Some ''CreateAudit'')
           (logger Warn (''RecyclingReport with ID '' @ dto_reportId dto @ '' not found.'')
              (Some ''CreateAudit'')
              (called (ReportFindUnique (dto_reportId dto))
                 (logger Log ''Starting audit creation'' None w))))"
    using nf nr by (simp add: service_B_defs store_defs newNotFoundException_def)
  show ?thesis
    by (simp add: a b status_newNotFoundException) (simp add: called_def logger_def)
qed

theorem missing_report_halts_at_step_1_witness:
  "fst (recyclingReport_findUnique ''r-404'' (sample_world no_fault)) = Inr None
   \<and> fst (createAudit_B (sample_dto\<lparr>dto_reportId := ''r-404''\<rparr>) (sample_world no_fault)) =
       Inl (newNotFoundException ''RecyclingReport with ID r-404 not found.'')
   \<and> audits (snd (createAudit_B (sample_dto\<lparr>dto_reportId := ''r-404''\<rparr>) (sample_world no_fault))) = []
   \<and> calls (snd (createAudit_A (sample_dto\<lparr>dto_reportId := ''r-404''\<rparr>) (sample_world no_fault)))
       = [ReportFindUnique ''r-404'']"
proof -
  have h: "fst (recyclingReport_findUnique (dto_reportId (sample_dto\<lparr>dto_reportId := ''r-404''\<rparr>))
             (sample_world no_fault)) = Inr None"
    by (simp add: recyclingReport_findUnique_def sample_world_def no_fault_def)
  show ?thesis
    using h missing_report_halts_at_step_1 [OF h]
    by (simp add: sample_world_def)
qed

subsection \<open>All steps succeed\<close>

text \<open>
  Claim C7. When the request's report exists and the store fails none of the three calls, both
  variants return the created audit row, whose \<open>audited\<close> field is the request's, the row
  is the one new row of the audit table, and the report ends with its \<open>audited\<close> flag
  equal to the request's value, otherwise as it was.
\<close>

theorem successful_run_sets_both_flags:
  assumes "reports w (dto_reportId dto) = Some r"
    and "faults w (ReportFindUnique (dto_reportId dto)) = None"
    and "faults w (AuditCreate (ulid_src w (ulid_used w)) (dto_reportId dto) (dto_audited dto)
                     (dto_auditorId dto) (dto_comments dto)) = None"
    and "faults w (ReportUpdate (dto_reportId dto) (dto_audited dto)) = None"
  shows "(\<exists>a. fst (createAudit_A dto w) = Inr a
            \<and> audit_audited a = dto_audited dto
            \<and> audit_reportId a = dto_reportId dto
            \<and> audits (snd (createAudit_A dto w)) = audits w @ [a]
            \<and> reports (snd (createAudit_A dto w)) (dto_reportId dto)
                = Some (r\<lparr>report_audited := dto_audited dto\<rparr>))
         \<and> (\<exists>a. fst (createAudit_B dto w) = Inr a
            \<and> audit_audited a = dto_audited dto
            \<and> audit_reportId a = dto_reportId dto
            \<and> audits (snd (createAudit_B dto w)) = audits w @ [a]
            \<and> reports (snd (createAudit_B dto w)) (dto_reportId dto)
                = Some (r\<lparr>report_audited := dto_audited dto\<rparr>))"
  using assms
  by (simp add: service_A_defs service_B_defs store_defs Let_def)

theorem successful_run_sets_both_flags_witness:
  "fst (createAudit_A sample_dto (sample_world no_fault)) = Inr sample_row
   \<and> audit_audited sample_row = True
   \<and> map_option report_audited (reports (snd (createAudit_A sample_dto (sample_world no_fault))) ''r-1'')
       = Some True
   \<and> fst (createAudit_B sample_dto (sample_world no_fault)) = Inr sample_row
   \<and> map_option report_audited (reports (snd (createAudit_B sample_dto (sample_world no_fault))) ''r-1'')
       = Some True"
proof -
  have h1: "reports (sample_world no_fault) (dto_reportId sample_dto) = Some sample_report"
    by (simp add: sample_world_def sample_dto_def)
  have h2: "faults (sample_world no_fault) (ReportFindUnique (dto_reportId sample_dto)) = None"
    by (simp add: sample_world_def no_fault_def)
  have h3: "faults (sample_world no_fault)
              (AuditCreate (ulid_src (sample_world no_fault) (ulid_used (sample_world no_fault)))
                 (dto_reportId sample_dto) (dto_audited sample_dto) (dto_auditorId sample_dto)
                 (dto_comments sample_dto)) = None"
    by (simp add: sample_world_def no_fault_def)
  have h4: "faults (sample_world no_fault)
              (ReportUpdate (dto_reportId sample_dto) (dto_audited sample_dto)) = None"
    by (simp add: sample_world_def no_fault_def)
  have a: "fst (createAudit_A sample_dto (sample_world no_fault)) = Inr sample_row"
    by (simp add: service_A_defs store_defs Let_def sample_world_def sample_dto_def no_fault_def
        sample_row_def show_nat_0)
  have b: "fst (createAudit_B sample_dto (sample_world no_fault)) = Inr sample_row"
    by (simp add: service_B_defs store_defs Let_def sample_world_def sample_dto_def no_fault_def
        sample_row_def show_nat_0)
  show ?thesis
    using successful_run_sets_both_flags [OF h1 h2 h3 h4] a b
    by (auto simp: sample_row_def sample_dto_def)
qed


subsection \<open>Step 3 fails after step 2 succeeded\<close>

text \<open>
  In both variants the audit row created by step 2 stays in the table when the update of the
  report fails: nothing is rolled back. The first variant then throws an
  InternalServerErrorException whose text says that the audit was created and that marking
  the report failed, whatever the store's failure was.
\<close>

lemma createAudit_A_flag_failure:
  assumes "reports w (dto_reportId dto) = Some r"
    and "faults w (ReportFindUnique (dto_reportId dto)) = None"
    and "faults w (AuditCreate (ulid_src w (ulid_used w)) (dto_reportId dto) (dto_audited dto)
                     (dto_auditorId dto) (dto_comments dto)) = None"
    and "faults w (ReportUpdate (dto_reportId dto) (dto_audited dto)) = Some e"
  shows "fst (createAudit_A dto w) =
           Inl (newInternalServerErrorException
                  ''Audit was created, but marking the report as audited failed.'')"
    and "audits (snd (createAudit_A dto w)) =
           audits w @ [\<lparr> audit_id = ulid_src w (ulid_used w), audit_reportId = dto_reportId dto,
                          audit_audited = dto_audited dto, audit_auditorId = dto_auditorId dto,
                          audit_comments = dto_comments dto,
                          audit_createdAt = clock w, audit_updatedAt = clock w \<rparr>]"
    and "reports (snd (createAudit_A dto w)) = reports w"
  using assms by (simp_all add: service_A_defs store_defs Let_def)

lemma createAudit_B_try_flag_failure:
  assumes "reports w (dto_reportId dto) = Some r"
    and "faults w (ReportFindUnique (dto_reportId dto)) = None"
    and "faults w (AuditCreate (ulid_src w (ulid_used w)) (dto_reportId dto) (dto_audited dto)
                     (dto_auditorId dto) (dto_comments dto)) = None"
    and "faults w (ReportUpdate (dto_reportId dto) (dto_audited dto)) = Some e"
  shows "fst (createAudit_B_try dto w) = Inl e"
    and "audits (snd (createAudit_B_try dto w)) =
           audits w @ [\<lparr> audit_id = ulid_src w (ulid_used w), audit_reportId = dto_reportId dto,
                          audit_audited = dto_audited dto, audit_auditorId = dto_auditorId dto,
                          audit_comments = dto_comments dto,
                          audit_createdAt = clock w, audit_updatedAt = clock w \<rparr>]"
    and "reports (snd (createAudit_B_try dto w)) = reports w"
  using assms by (simp_all add: createAudit_B_try_def store_defs Let_def)

text \<open>
  The second variant sends the store's failure through the one catch block of the method,
  which cannot tell step 3 from step 2: an unknown failure of either becomes the same
  InternalServerErrorException.
\<close>

lemma createAudit_B_flag_failure:
  assumes "reports w (dto_reportId dto) = Some r"
    and "faults w (ReportFindUnique (dto_reportId dto)) = None"
    and "faults w (AuditCreate (ulid_src w (ulid_used w)) (dto_reportId dto) (dto_audited dto)
                     (dto_auditorId dto) (dto_comments dto)) = None"
    and "faults w (ReportUpdate (dto_reportId dto) (dto_audited dto)) = Some e"
  shows "fst (createAudit_B dto w) = Inl (fst (createAudit_B_catch e w))"
    and "audits (snd (createAudit_B dto w)) =
           audits w @ [\<lparr> audit_id = ulid_src w (ulid_used w), audit_reportId = dto_reportId dto,
                          audit_audited = dto_audited dto, audit_auditorId = dto_auditorId dto,
                          audit_comments = dto_comments dto,
                          audit_createdAt = clock w, audit_updatedAt = clock w \<rparr>]"
    and "reports (snd (createAudit_B dto w)) = reports w"
proof -
  note t = createAudit_B_try_flag_failure [OF assms]
  note b = createAudit_B_after_try_failure [OF t(1)]
  show "fst (createAudit_B dto w) = Inl (fst (createAudit_B_catch e w))"
    by (cases e) (simp_all add: b Let_def)
  show "audits (snd (createAudit_B dto w)) =
           audits w @ [\<lparr> audit_id = ulid_src w (ulid_used w), audit_reportId = dto_reportId dto,
                          audit_audited = dto_audited dto, audit_auditorId = dto_auditorId dto,
                          audit_comments = dto_comments dto,
                          audit_createdAt = clock w, audit_updatedAt = clock w \<rparr>]"
    by (simp add: b createAudit_B_catch_logs_only t(2))
  show "reports (snd (createAudit_B dto w)) = reports w"
    by (simp add: b createAudit_B_catch_logs_only t(3))
qed

text \<open>
  Claim C1, on the second variant. The report \<open>r-1\<close> exists, the audit row is created, and
  the update of the report fails with a lost connection. The row stays in the table, as the
  claim says, but the failure returned is the InternalServerErrorException with the text
  \<^verbatim>\<open>An unexpected error occurred.\<close>, the very value returned when the creation of the
  row fails in the same way and no row exists: the outcome does not name the step. The first
  variant returns its own text for the failed step on the same input.
\<close>

theorem createAudit_B_flag_failure_is_generic_500:
  "fst (createAudit_B sample_dto (sample_world (update_fails (OtherFailure ''connection lost''))))
     = Inl (newInternalServerErrorException ''An unexpected error occurred.'')
   \<and> audits (snd (createAudit_B sample_dto (sample_world (update_fails (OtherFailure ''connection lost'')))))
     = [sample_row]
   \<and> fst (createAudit_B sample_dto (sample_world (create_fails (OtherFailure ''connection lost''))))
     = Inl (newInternalServerErrorException ''An unexpected error occurred.'')
   \<and> audits (snd (createAudit_B sample_dto (sample_world (create_fails (OtherFailure ''connection lost'')))))
     = []
   \<and> fst (createAudit_A sample_dto (sample_world (update_fails (OtherFailure ''connection lost''))))
     = Inl (newInternalServerErrorException
              ''Audit was created, but marking the report as audited failed.'')"
  by (simp add: service_A_defs service_B_defs store_defs Let_def sample_world_def sample_dto_def
      sample_row_def show_nat_0)

subsection \<open>Step 2 fails\<close>

text \<open>
  When the creation of the audit row fails, neither variant goes on to step 3: the store has
  received the lookup and the creation and no update, and its tables are as before. The
  second variant classifies the failure: code P2002 and code P2003 become a
  BadRequestException naming the constraint's fields, an unknown failure becomes an
  InternalServerErrorException.
\<close>

lemma createAudit_B_try_save_failure:
  assumes "reports w (dto_reportId dto) = Some r"
    and "faults w (ReportFindUnique (dto_reportId dto)) = None"
    and "faults w (AuditCreate (ulid_src w (ulid_used w)) (dto_reportId dto) (dto_audited dto)
                     (dto_auditorId dto) (dto_comments dto)) = Some e"
  shows "fst (createAudit_B_try dto w) = Inl e"
    and "calls (snd (createAudit_B_try dto w)) =
           calls w @ [ReportFindUnique (dto_reportId dto),
                      AuditCreate (ulid_src w (ulid_used w)) (dto_reportId dto) (dto_audited dto)
                        (dto_auditorId dto) (dto_comments dto)]"
    and "audits (snd (createAudit_B_try dto w)) = audits w"
    and "reports (snd (createAudit_B_try dto w)) = reports w"
  using assms by (simp_all add: createAudit_B_try_def store_defs Let_def)

lemma createAudit_B_save_failure:
  assumes "reports w (dto_reportId dto) = Some r"
    and "faults w (ReportFindUnique (dto_reportId dto)) = None"
    and "faults w (AuditCreate (ulid_src w (ulid_used w)) (dto_reportId dto) (dto_audited dto)
                     (dto_auditorId dto) (dto_comments dto)) = Some e"
  shows "calls (snd (createAudit_B dto w)) =
           calls w @ [ReportFindUnique (dto_reportId dto),
                      AuditCreate (ulid_src w (ulid_used w)) (dto_reportId dto) (dto_audited dto)
                        (dto_auditorId dto) (dto_comments dto)]"
    and "audits (snd (createAudit_B dto w)) = audits w"
    and "reports (snd (createAudit_B dto w)) = reports w"
    and "e = PrismaClientKnownRequestError ''P2002'' meta \<Longrightarrow>
           fst (createAudit_B dto w) =
             Inl (newBadRequestException (''Unique constraint failed on the field: ''
                    @ js_to_string (meta_prop meta ''target'')))"
    and "e = PrismaClientKnownRequestError ''P2003'' meta \<Longrightarrow>
           fst (createAudit_B dto w) =
             Inl (newBadRequestException (''Foreign key constraint failed on the field: ''
                    @ js_to_string (meta_prop meta ''field_name'')))"
    and "e = OtherFailure txt \<Longrightarrow>
           fst (createAudit_B dto w) =
             Inl (newInternalServerErrorException ''An unexpected error occurred.'')"
proof -
  note t = createAudit_B_try_save_failure [OF assms]
  note b = createAudit_B_after_try_failure [OF t(1)]
  show "calls (snd (createAudit_B dto w)) =
           calls w @ [ReportFindUnique (dto_reportId dto),
                      AuditCreate (ulid_src w (ulid_used w)) (dto_reportId dto) (dto_audited dto)
                        (dto_auditorId dto) (dto_comments dto)]"
    by (simp add: b createAudit_B_catch_logs_only t(2))
  show "audits (snd (createAudit_B dto w)) = audits w"
    by (simp add: b createAudit_B_catch_logs_only t(3))
  show "reports (snd (createAudit_B dto w)) = reports w"
    by (simp add: b createAudit_B_catch_logs_only t(4))
  show "e = PrismaClientKnownRequestError ''P2002'' meta \<Longrightarrow>
           fst (createAudit_B dto w) =
             Inl (newBadRequestException (''Unique constraint failed on the field: ''
                    @ js_to_string (meta_prop meta ''target'')))"
    by (simp add: b Let_def)
  show "e = PrismaClientKnownRequestError ''P2003'' meta \<Longrightarrow>
           fst (createAudit_B dto w) =
             Inl (newBadRequestException (''Foreign key constraint failed on the field: ''
                    @ js_to_string (meta_prop meta ''field_name'')))"
    by (simp add: b Let_def)
  show "e = OtherFailure txt \<Longrightarrow>
           fst (createAudit_B dto w) =
             Inl (newInternalServerErrorException ''An unexpected error occurred.'')"
    by (simp add: b)
qed

text \<open>
  The first variant catches every failure of the creation and throws one and the same
  BadRequestException.
\<close>

lemma createAudit_A_save_failure:
  assumes "reports w (dto_reportId dto) = Some r"
    and "faults w (ReportFindUnique (dto_reportId dto)) = None"
    and "faults w (AuditCreate (ulid_src w (ulid_used w)) (dto_reportId dto) (dto_audited dto)
                     (dto_auditorId dto) (dto_comments dto)) = Some e"
  shows "fst (createAudit_A dto w) =
           Inl (newBadRequestException
                  ''Audit creation failed due to an issue while saving the audit record.'')"
    and "calls (snd (createAudit_A dto w)) =
           calls w @ [ReportFindUnique (dto_reportId dto),
                      AuditCreate (ulid_src w (ulid_used w)) (dto_reportId dto) (dto_audited dto)
                        (dto_auditorId dto) (dto_comments dto)]"
    and "audits (snd (createAudit_A dto w)) = audits w"
    and "reports (snd (createAudit_A dto w)) = reports w"
  using assms by (simp_all add: service_A_defs store_defs Let_def)

text \<open>
  Claim C5, on the first variant. The report \<open>r-1\<close> exists and the creation of the audit
  row fails with an unknown error. Step 3 is not invoked, as the claim says: the store has
  received the lookup and the creation only. But the failure returned is a
  BadRequestException, answered with status 400, where the claim has status 500 for a
  failure that is neither a uniqueness nor a foreign-key violation; the second variant
  returns the InternalServerErrorException on the same input.
\<close>

theorem createAudit_A_unknown_save_failure_is_400:
  "fst (createAudit_A sample_dto (sample_world (create_fails (OtherFailure ''Unknown error''))))
     = Inl (newBadRequestException
              ''Audit creation failed due to an issue while saving the audit record.'')
   \<and> status (getResponseMetadata (newBadRequestException
              ''Audit creation failed due to an issue while saving the audit record.'')) = 400
   \<and> calls (snd (createAudit_A sample_dto (sample_world (create_fails (OtherFailure ''Unknown error'')))))
     = [ReportFindUnique ''r-1'', AuditCreate ''01HX0'' ''r-1'' True ''a-1'' (Some ''All good.'')]
   \<and> fst (createAudit_B sample_dto (sample_world (create_fails (OtherFailure ''Unknown error''))))
     = Inl (newInternalServerErrorException ''An unexpected error occurred.'')"
  by (simp add: service_A_defs service_B_defs store_defs Let_def sample_world_def sample_dto_def
      show_nat_0 status_newBadRequestException)

section \<open>Reading one audit\<close>

lemma findAuditById_B_result:
  "fst (findAuditById_B i w) =
     (case faults w (AuditFindUnique i) of
        Some e \<Rightarrow> Inl e
      | None \<Rightarrow>
          (case find (\<lambda>a. audit_id a = i) (audits w) of
             None \<Rightarrow> Inl (newNotFoundException (''Audit with ID '' @ i @ '' not found.''))
           | Some a \<Rightarrow> Inr (Some a)))"
  by (simp add: findAuditById_B_def store_defs Let_def split: option.splits)

lemma findAuditById_A_result:
  "fst (findAuditById_A i w) =
     (case faults w (AuditFindUniqueOrThrow i) of
        Some e \<Rightarrow> Inl e
      | None \<Rightarrow>
          (case find (\<lambda>a. audit_id a = i) (audits w) of
             None \<Rightarrow> Inl (PrismaClientKnownRequestError ''P2025'' None)
           | Some a \<Rightarrow> Inr a))"
  by (simp add: findAuditById_A_def store_defs Let_def split: option.splits)

lemma find_by_id_Some: "find (\<lambda>a. audit_id a = i) xs = Some a \<Longrightarrow> audit_id a = i \<and> a \<in> set xs"
  by (auto simp: find_Some_iff)

lemma find_by_id_None: "find (\<lambda>a. audit_id a = i) xs = None \<Longrightarrow> \<forall>a \<in> set xs. audit_id a \<noteq> i"
  by (simp add: find_None_iff)

lemma findAuditById_B_cases:
  "fst (findAuditById_B i w) \<noteq> Inr None
   \<and> (\<forall>a. fst (findAuditById_B i w) = Inr (Some a) \<longrightarrow> audit_id a = i \<and> a \<in> set (audits w))
   \<and> (\<forall>e. fst (findAuditById_B i w) = Inl e \<longrightarrow>
          faults w (AuditFindUnique i) = Some e
          \<or> ((\<forall>a \<in> set (audits w). audit_id a \<noteq> i)
              \<and> e = newNotFoundException (''Audit with ID '' @ i @ '' not found.'')
              \<and> status (getResponseMetadata e) = 404))"
proof (cases "faults w (AuditFindUnique i)")
  case (Some e)
  then show ?thesis by (simp add: findAuditById_B_result)
next
  case None
  note nf = this
  show ?thesis
  proof (cases "find (\<lambda>a. audit_id a = i) (audits w)")
    case None
    with nf have r: "fst (findAuditById_B i w)
        = Inl (newNotFoundException (''Audit with ID '' @ i @ '' not found.''))"
      by (simp add: findAuditById_B_result)
    show ?thesis
      unfolding r using find_by_id_None [OF None]
      by (simp add: status_newNotFoundException)
  next
    case (Some a)
    with nf have r: "fst (findAuditById_B i w) = Inr (Some a)"
      by (simp add: findAuditById_B_result)
    show ?thesis
      unfolding r using find_by_id_Some [OF Some] by simp
  qed
qed

lemma findAuditById_A_cases:
  "(\<forall>a. fst (findAuditById_A i w) = Inr a \<longrightarrow> audit_id a = i \<and> a \<in> set (audits w))
   \<and> (\<forall>e. fst (findAuditById_A i w) = Inl e \<longrightarrow>
          faults w (AuditFindUniqueOrThrow i) = Some e
          \<or> ((\<forall>a \<in> set (audits w). audit_id a \<noteq> i)
              \<and> e = PrismaClientKnownRequestError ''P2025'' None
              \<and> status (getResponseMetadata e) = 404))"
proof (cases "faults w (AuditFindUniqueOrThrow i)")
  case (Some e)
  then show ?thesis by (simp add: findAuditById_A_result)
next
  case None
  note nf = this
  show ?thesis
  proof (cases "find (\<lambda>a. audit_id a = i) (audits w)")
    case None
    with nf have r: "fst (findAuditById_A i w) = Inl (PrismaClientKnownRequestError ''P2025'' None)"
      by (simp add: findAuditById_A_result)
    show ?thesis
      unfolding r using find_by_id_None [OF None]
      by (simp add: handlePrismaError_def NOT_FOUND_def)
  next
    case (Some a)
    with nf have r: "fst (findAuditById_A i w) = Inr a"
      by (simp add: findAuditById_A_result)
    show ?thesis
      unfolding r using find_by_id_Some [OF Some] by simp
  qed
qed

text \<open>
  Claim C10, as the code has it. \<^verbatim>\<open>findAuditById\<close> never returns \<^verbatim>\<open>null\<close>. It has
  three outcomes: it returns a row of the audit table whose id is the argument; or, when no
  row has that id, it fails with a failure the filter answers with status 404 (the second
  variant's NotFoundException, the first variant's known request error P2025 from
  \<^verbatim>\<open>findUniqueOrThrow\<close>); or, when the store's read itself fails, it fails with the
  store's failure, unchanged.
\<close>

theorem findAuditById_never_null:
  "fst (findAuditById_B i w) \<noteq> Inr None
   \<and> (\<forall>a. fst (findAuditById_B i w) = Inr (Some a) \<longrightarrow> audit_id a = i \<and> a \<in> set (audits w))
   \<and> (\<forall>e. fst (findAuditById_B i w) = Inl e \<longrightarrow>
          faults w (AuditFindUnique i) = Some e
          \<or> ((\<forall>a \<in> set (audits w). audit_id a \<noteq> i)
              \<and> e = newNotFoundException (''Audit with ID '' @ i @ '' not found.'')
              \<and> status (getResponseMetadata e) = 404))
   \<and> (\<forall>a. fst (findAuditById_A i w) = Inr a \<longrightarrow> audit_id a = i \<and> a \<in> set (audits w))
   \<and> (\<forall>e. fst (findAuditById_A i w) = Inl e \<longrightarrow>
          faults w (AuditFindUniqueOrThrow i) = Some e
          \<or> ((\<forall>a \<in> set (audits w). audit_id a \<noteq> i)
              \<and> e = PrismaClientKnownRequestError ''P2025'' None
              \<and> status (getResponseMetadata e) = 404))"
  using findAuditById_B_cases [of i w] findAuditById_A_cases [of i w] by blast

theorem findAuditById_never_null_witness:
  "fst (findAuditById_B ''01HX0'' ((sample_world no_fault)\<lparr>audits := [sample_row]\<rparr>)) = Inr (Some sample_row)
   \<and> audit_id sample_row = ''01HX0''
   \<and> fst (findAuditById_B ''nonexistentId'' ((sample_world no_fault)\<lparr>audits := [sample_row]\<rparr>))
       = Inl (newNotFoundException ''Audit with ID nonexistentId not found.'')
   \<and> fst (findAuditById_A ''nonexistentId'' ((sample_world no_fault)\<lparr>audits := [sample_row]\<rparr>))
       = Inl (PrismaClientKnownRequestError ''P2025'' None)"
  using findAuditById_never_null [of "''01HX0''" "(sample_world no_fault)\<lparr>audits := [sample_row]\<rparr>"]
  by (simp add: findAuditById_B_result findAuditById_A_result sample_world_def no_fault_def
      sample_row_def)

text \<open>
  Claim C10 as stated fails: when the store's read fails with a database error, the method
  fails with that error, which is no NotFound failure (the filter answers it with status 500).
\<close>

theorem findAuditById_store_failure_propagates:
  "fst (findAuditById_B ''audit123'' (sample_world (read_fails (OtherFailure ''Database error''))))
     = Inl (OtherFailure ''Database error'')
   \<and> status (getResponseMetadata (OtherFailure ''Database error'')) = 500"
  by (simp add: findAuditById_B_result sample_world_def INTERNAL_SERVER_ERROR_def)

end
